theory Spec2Isabelle
  imports Complex_Main "HOL-Library.AList"
begin

section \<open>Numbers and errors\<close>

text \<open>
  The scripts compute with Python numbers. They are modelled as mathematical reals:
  rounding, overflow and the special values of binary floating point are outside the
  model, with one exception, the value \<open>float('inf')\<close> that the code itself writes
  as a sentinel. Everything the code raises on exact numbers is a branch of the model:
  a division whose divisor is zero raises \<open>ZeroDivisionError\<close>, reading a name that
  was never bound raises \<open>NameError\<close>, a missing dictionary key raises \<open>KeyError\<close>.
\<close>

datatype py_error =
    ZeroDivisionError
  | NameError
  | KeyError
  | ValueError
  | TypeError
  | AttributeError

text \<open>A Python float that is either a finite number or \<open>float('inf')\<close>.\<close>

datatype py_float = Fin real | PosInf

definition py_div :: "real \<Rightarrow> real \<Rightarrow> py_error + real" where
  "py_div a b = (if b = 0 then Inl ZeroDivisionError else Inr (a / b))"

section \<open>capex\_analysis.py\<close>

subsection \<open>COST\_ASSUMPTIONS\<close>

record cost_assumptions =
  solar_pv_cost_per_kw :: real
  battery_storage_cost_per_kw :: real
  battery_storage_cost_per_kwh :: real
  inverter_cost_per_kw :: real
  electrical_cost_per_kw :: real
  installation_cost_per_kw :: real
  engineering_cost_per_kw :: real
  contingency_percentage :: real
  itc_rate_rate :: real
  opex_per_kw_annual :: real

definition COST_ASSUMPTIONS :: cost_assumptions where
  "COST_ASSUMPTIONS =
     \<lparr> solar_pv_cost_per_kw = 1200,
       battery_storage_cost_per_kw = 800,
       battery_storage_cost_per_kwh = 400,
       inverter_cost_per_kw = 150,
       electrical_cost_per_kw = 200,
       installation_cost_per_kw = 250,
       engineering_cost_per_kw = 100,
       contingency_percentage = 10 / 100,
       itc_rate_rate = 0,
       opex_per_kw_annual = 25 \<rparr>"

subsection \<open>calculate\_site\_capex\<close>

text \<open>The dictionary \<open>costs\<close> that the function fills and returns, one field per key.\<close>

record costs =
  solar_pv :: real
  battery_power :: real
  battery_energy :: real
  battery_total :: real
  inverter :: real
  electrical :: real
  installation :: real
  engineering :: real
  subtotal :: real
  contingency :: real
  total_capex :: real
  itc_credit :: real
  net_capex :: real
  cost_per_kw :: real
  annual_opex :: real

text \<open>
  The assignments in the order of the source. The only operation that can raise is
  the division by \<open>solar_capacity_kw\<close> for the key \<open>cost_per_kw\<close>; it comes after
  every other cost entry and before \<open>annual_opex\<close>.
\<close>

definition calculate_site_capex :: "real \<Rightarrow> real \<Rightarrow> real \<Rightarrow> py_error + costs" where
  "calculate_site_capex solar_capacity_kw battery_power_kw battery_energy_kwh =
     (let c_solar_pv = solar_capacity_kw * solar_pv_cost_per_kw COST_ASSUMPTIONS;
          c_battery_power = battery_power_kw * battery_storage_cost_per_kw COST_ASSUMPTIONS;
          c_battery_energy = battery_energy_kwh * battery_storage_cost_per_kwh COST_ASSUMPTIONS;
          c_battery_total = c_battery_power + c_battery_energy;
          total_inverter_capacity = solar_capacity_kw + battery_power_kw;
          c_inverter = total_inverter_capacity * inverter_cost_per_kw COST_ASSUMPTIONS;
          c_electrical = solar_capacity_kw * electrical_cost_per_kw COST_ASSUMPTIONS;
          c_installation = solar_capacity_kw * installation_cost_per_kw COST_ASSUMPTIONS;
          c_engineering = solar_capacity_kw * engineering_cost_per_kw COST_ASSUMPTIONS;
          c_subtotal = (c_solar_pv + c_battery_total +
                        c_inverter + c_electrical +
                        c_installation + c_engineering);
          c_contingency = c_subtotal * contingency_percentage COST_ASSUMPTIONS;
          c_total_capex = c_subtotal + c_contingency;
          c_itc_credit = c_total_capex * itc_rate_rate COST_ASSUMPTIONS;
          c_net_capex = c_total_capex - c_itc_credit
      in case py_div c_total_capex solar_capacity_kw of
           Inl e \<Rightarrow> Inl e
         | Inr c_cost_per_kw \<Rightarrow>
             Inr \<lparr> solar_pv = c_solar_pv,
                   battery_power = c_battery_power,
                   battery_energy = c_battery_energy,
                   battery_total = c_battery_total,
                   inverter = c_inverter,
                   electrical = c_electrical,
                   installation = c_installation,
                   engineering = c_engineering,
                   subtotal = c_subtotal,
                   contingency = c_contingency,
                   total_capex = c_total_capex,
                   itc_credit = c_itc_credit,
                   net_capex = c_net_capex,
                   cost_per_kw = c_cost_per_kw,
                   annual_opex = solar_capacity_kw * opex_per_kw_annual COST_ASSUMPTIONS \<rparr>)"

subsection \<open>calculate\_financial\_metrics\<close>

record metrics =
  annual_cash_flow :: real
  payback_years :: py_float
  npv :: real
  irr :: real
  roi :: real
  lcoe_note :: string

text \<open>
  The loop \<open>for year in range(1, project_lifetime + 1): npv += annual_cash_flow /
  ((1 + rate) ** year)\<close>, run over the list of years with the accumulator it starts
  from. Both the NPV at the discount rate and the residual at a trial rate of the
  bisection are this loop.
\<close>

fun npv_loop :: "real \<Rightarrow> real \<Rightarrow> int list \<Rightarrow> real \<Rightarrow> py_error + real" where
  "npv_loop cash_flow rate [] acc = Inr acc"
| "npv_loop cash_flow rate (year # years) acc =
     (case py_div cash_flow ((1 + rate) ^ nat year) of
        Inl e \<Rightarrow> Inl e
      | Inr q \<Rightarrow> npv_loop cash_flow rate years (acc + q))"

text \<open>
  The state of the bisection: \<open>irr_low\<close>, \<open>irr_high\<close> and \<open>irr_test\<close>. The last
  one is unbound until the first pass through the body, which is \<open>None\<close> here.
\<close>

type_synonym irr_state = "real \<times> real \<times> real option"

definition tolerance :: real where
  "tolerance = 1 / 1000"

text \<open>
  \<open>irr_loop k\<close> runs at most \<open>k\<close> passes of \<open>for _ in range(100)\<close>; \<open>break\<close> returns
  the state at once.
\<close>

fun irr_loop :: "nat \<Rightarrow> real \<Rightarrow> real \<Rightarrow> int \<Rightarrow> irr_state \<Rightarrow> py_error + irr_state" where
  "irr_loop 0 cash_flow capex project_lifetime s = Inr s"
| "irr_loop (Suc k) cash_flow capex project_lifetime (irr_low, irr_high, previous) =
     (let irr_test = (irr_low + irr_high) / 2 in
      case npv_loop cash_flow irr_test [1..project_lifetime] (- capex) of
        Inl e \<Rightarrow> Inl e
      | Inr npv_test \<Rightarrow>
          if \<bar>npv_test\<bar> < tolerance then Inr (irr_low, irr_high, Some irr_test)
          else if npv_test > 0 then
            irr_loop k cash_flow capex project_lifetime (irr_test, irr_high, Some irr_test)
          else
            irr_loop k cash_flow capex project_lifetime (irr_low, irr_test, Some irr_test))"

definition calculate_financial_metrics ::
  "real \<Rightarrow> real \<Rightarrow> real \<Rightarrow> int \<Rightarrow> real \<Rightarrow> py_error + metrics" where
  "calculate_financial_metrics annual_revenue opex capex project_lifetime discount_rate =
     (let cash_flow = annual_revenue - opex;
          payback = (if cash_flow > 0 then
                       (case py_div capex cash_flow of Inl e \<Rightarrow> Inl e | Inr p \<Rightarrow> Inr (Fin p))
                     else Inr PosInf)
      in case payback of
        Inl e \<Rightarrow> Inl e
      | Inr payback_v \<Rightarrow>
      (case npv_loop cash_flow discount_rate [1..project_lifetime] (- capex) of
        Inl e \<Rightarrow> Inl e
      | Inr npv_v \<Rightarrow>
      (case irr_loop 100 cash_flow capex project_lifetime (0, 1 / 2, None) of
        Inl e \<Rightarrow> Inl e
      | Inr (irr_low, irr_high, irr_test) \<Rightarrow>
      (case (if cash_flow > 0 then
               (case irr_test of None \<Rightarrow> Inl NameError | Some v \<Rightarrow> Inr v)
             else Inr 0) of
        Inl e \<Rightarrow> Inl e
      | Inr irr_v \<Rightarrow>
      (let total_revenue = annual_revenue * real_of_int project_lifetime;
           total_opex = opex * real_of_int project_lifetime;
           total_profit = total_revenue - total_opex - capex
       in case (if capex > 0 then
                  (case py_div total_profit capex of
                     Inl e \<Rightarrow> Inl e | Inr q \<Rightarrow> Inr (q * 100))
                else Inr 0) of
         Inl e \<Rightarrow> Inl e
       | Inr roi_v \<Rightarrow>
           Inr \<lparr> annual_cash_flow = cash_flow,
                 payback_years = payback_v,
                 npv = npv_v,
                 irr = irr_v,
                 roi = roi_v,
                 lcoe_note = ''LCOE requires annual generation data'' \<rparr>)))))"

section \<open>Dictionaries that are shared: an explicit store\<close>

text \<open>
  \<open>OPTIMIZED_CONFIG\<close> is a module global, a dictionary of numbers and of further
  dictionaries, and \<open>financial_calculator.py\<close> writes into a dictionary it got from
  it. Whether that write reaches the configuration depends on which objects are
  shared, so dictionaries live in a store: a value is a number or a reference, the
  store is the list of all dictionary objects, and the address of an object is its
  position. A new object is appended; nothing is ever freed. A dictionary is the list
  of its items in insertion order.
\<close>

datatype py_value = Num real | Ref nat

type_synonym py_dict = "(string \<times> py_value) list"

type_synonym heap = "py_dict list"

text \<open>A computation that may raise: it returns the store as it has become so far.\<close>

type_synonym 'a py_comp = "heap \<Rightarrow> (py_error + 'a) \<times> heap"

definition py_return :: "'a \<Rightarrow> 'a py_comp" where
  "py_return x h = (Inr x, h)"

definition py_bind :: "'a py_comp \<Rightarrow> ('a \<Rightarrow> 'b py_comp) \<Rightarrow> 'b py_comp" where
  "py_bind f g h = (case f h of (Inl e, h') \<Rightarrow> (Inl e, h') | (Inr x, h') \<Rightarrow> g x h')"

text \<open>A step that reads or computes and leaves the store alone.\<close>

definition py_pure :: "py_error + 'a \<Rightarrow> 'a py_comp" where
  "py_pure r h = (r, h)"

text \<open>\<open>d[k]\<close> on the items of a dictionary, and \<open>d[k] = x\<close>.\<close>

definition dict_get :: "py_dict \<Rightarrow> string \<Rightarrow> py_error + py_value" where
  "dict_get d k = (case map_of d k of None \<Rightarrow> Inl KeyError | Some x \<Rightarrow> Inr x)"

definition dict_set :: "py_dict \<Rightarrow> string \<Rightarrow> py_value \<Rightarrow> py_dict" where
  "dict_set d k x = AList.update k x d"

text \<open>
  \<open>v[k]\<close>, \<open>k in v\<close>, \<open>v.copy()\<close> and \<open>v[k] = x\<close> for a value \<open>v\<close>. On a number the
  first two and the last raise \<open>TypeError\<close> and \<open>copy\<close> raises \<open>AttributeError\<close>. A
  reference beyond the store cannot arise in Python; the model answers \<open>TypeError\<close>.
  \<open>copy\<close> is shallow: the new object gets the same items.
\<close>

definition subscript :: "py_value \<Rightarrow> string \<Rightarrow> py_value py_comp" where
  "subscript v k h =
     (case v of
        Num x \<Rightarrow> (Inl TypeError, h)
      | Ref a \<Rightarrow> (if a < length h then dict_get (h ! a) k else Inl TypeError, h))"

definition contains :: "py_value \<Rightarrow> string \<Rightarrow> bool py_comp" where
  "contains v k h =
     (case v of
        Num x \<Rightarrow> (Inl TypeError, h)
      | Ref a \<Rightarrow> (if a < length h then Inr (k \<in> fst ` set (h ! a)) else Inl TypeError, h))"

definition copy :: "py_value \<Rightarrow> py_value py_comp" where
  "copy v h =
     (case v of
        Num x \<Rightarrow> (Inl AttributeError, h)
      | Ref a \<Rightarrow> (if a < length h then (Inr (Ref (length h)), h @ [h ! a])
                 else (Inl TypeError, h)))"

definition store :: "py_value \<Rightarrow> string \<Rightarrow> py_value \<Rightarrow> unit py_comp" where
  "store v k x h =
     (case v of
        Num y \<Rightarrow> (Inl TypeError, h)
      | Ref a \<Rightarrow> (if a < length h then (Inr (), h[a := dict_set (h ! a) k x])
                 else (Inl TypeError, h)))"

text \<open>A value used as a number in arithmetic: a dictionary there raises \<open>TypeError\<close>.\<close>

definition as_number :: "py_value \<Rightarrow> py_error + real" where
  "as_number v = (case v of Num x \<Rightarrow> Inr x | Ref a \<Rightarrow> Inl TypeError)"

section \<open>optimized\_scenario\_config.py\<close>

text \<open>
  The store after the module has been loaded: \<open>OPTIMIZED_CONFIG\<close> at address 0 and the
  dictionaries nested in it at the addresses 1 to 7.
\<close>

definition OPTIMIZED_CONFIG :: py_value where
  "OPTIMIZED_CONFIG = Ref 0"

definition module_heap :: heap where
  "module_heap =
     [ [ (''ppa_rate_cents_per_kwh'', Num (754 / 100)),
         (''net_capex_usd'', Num 4710145),
         (''capex_reduction_pct'', Num (31 / 10)),
         (''battery_config'', Ref 1),
         (''revenue_streams'', Ref 2),
         (''financial_metrics'', Ref 3),
         (''sites'', Ref 4),
         (''total_solar_kw'', Num 1730),
         (''total_battery_kw'', Num 865),
         (''total_battery_kwh'', Num 433),
         (''annual_generation_mwh'', Num 3219),
         (''annual_opex_usd'', Num 43000) ],
       [ (''power_fraction'', Num (5 / 10)),
         (''duration_hours'', Num (5 / 10)),
         (''total_power_kw'', Num 865),
         (''total_energy_kwh'', Num 432),
         (''battery_cost_usd'', Num 320000) ],
       [ (''base_ppa'', Num 243000),
         (''platform_fees'', Num 19000),
         (''grid_services'', Num 60000),
         (''ev_charging'', Num 50000),
         (''rec_sales'', Num 30000),
         (''digital_twin_licensing'', Num 75000),
         (''total'', Num 477000) ],
       [ (''irr_pct'', Num (78 / 10)),
         (''payback_years'', Num (109 / 10)),
         (''npv_usd'', Num (- 80000)),
         (''annual_cash_flow'', Num 434000) ],
       [ (''Site_A'', Ref 5),
         (''Site_B'', Ref 6),
         (''Site_C'', Ref 7) ],
       [ (''solar_kw'', Num 550), (''battery_kw'', Num 275), (''battery_kwh'', Num 138) ],
       [ (''solar_kw'', Num 380), (''battery_kw'', Num 190), (''battery_kwh'', Num 95) ],
       [ (''solar_kw'', Num 800), (''battery_kw'', Num 400), (''battery_kwh'', Num 200) ] ]"

definition get_optimized_site_config :: "string \<Rightarrow> py_value py_comp" where
  "get_optimized_site_config site_name =
     py_bind (subscript OPTIMIZED_CONFIG ''sites'') (\<lambda>sites.
     py_bind (contains sites site_name) (\<lambda>known.
       if \<not> known then py_pure (Inl ValueError)
       else
         py_bind (subscript OPTIMIZED_CONFIG ''sites'') (\<lambda>sites'.
         py_bind (subscript sites' site_name) (\<lambda>site.
         copy site))))"

definition get_optimized_capex :: "py_value py_comp" where
  "get_optimized_capex = subscript OPTIMIZED_CONFIG ''net_capex_usd''"

definition get_optimized_revenue_streams :: "py_value py_comp" where
  "get_optimized_revenue_streams =
     py_bind (subscript OPTIMIZED_CONFIG ''revenue_streams'') copy"

section \<open>financial\_calculator.py\<close>

text \<open>
  The dictionary that \<open>calculate_current_metrics\<close> builds and returns is new and only
  read afterwards; it is a record here, its entry \<open>revenue\<close> the reference to the
  copy. The calls pass their arguments to \<open>calculate_financial_metrics\<close> as numbers.
\<close>

record data =
  data_revenue :: py_value
  data_capex :: py_value
  data_opex :: py_value
  data_metrics :: metrics

definition call_financial_metrics ::
  "py_value \<Rightarrow> py_value \<Rightarrow> py_value \<Rightarrow> int \<Rightarrow> real \<Rightarrow> py_error + metrics" where
  "call_financial_metrics annual_revenue opex capex project_lifetime discount_rate =
     (case as_number annual_revenue of Inl e \<Rightarrow> Inl e | Inr r \<Rightarrow>
      case as_number opex of Inl e \<Rightarrow> Inl e | Inr x \<Rightarrow>
      case as_number capex of Inl e \<Rightarrow> Inl e | Inr c \<Rightarrow>
        calculate_financial_metrics r x c project_lifetime discount_rate)"

definition calculate_current_metrics :: "data py_comp" where
  "calculate_current_metrics =
     py_bind get_optimized_revenue_streams (\<lambda>rev.
     py_bind get_optimized_capex (\<lambda>capex.
     py_bind (subscript OPTIMIZED_CONFIG ''annual_opex_usd'') (\<lambda>opex.
     py_bind (subscript rev ''total'') (\<lambda>total.
     py_bind (py_pure (call_financial_metrics total opex capex 25 (8 / 100))) (\<lambda>m.
     py_return \<lparr> data_revenue = rev, data_capex = capex, data_opex = opex,
                 data_metrics = m \<rparr>)))))"

text \<open>
  \<open>calculate_scenario\<close> without its \<open>print\<close> lines (they format numbers that are
  already computed). The adjusted mapping \<open>rev\<close> is the second object the call
  creates, after the copy made by \<open>get_optimized_revenue_streams\<close>.
\<close>

definition py_add :: "py_value \<Rightarrow> real \<Rightarrow> py_error + py_value" where
  "py_add v y = (case as_number v of Inl e \<Rightarrow> Inl e | Inr x \<Rightarrow> Inr (Num (x + y)))"

definition calculate_scenario :: "string \<Rightarrow> real \<Rightarrow> real \<Rightarrow> metrics py_comp" where
  "calculate_scenario scenario_name revenue_adjustment capex_adjustment =
     py_bind calculate_current_metrics (\<lambda>d.
     py_bind (copy (data_revenue d)) (\<lambda>rev.
     py_bind (py_pure (py_add (data_capex d) capex_adjustment)) (\<lambda>capex.
     py_bind (subscript rev ''total'') (\<lambda>total.
     py_bind (py_pure (py_add total revenue_adjustment)) (\<lambda>total'.
     py_bind (store rev ''total'' total') (\<lambda>_.
     py_bind (subscript rev ''total'') (\<lambda>total''.
     py_pure (call_financial_metrics total'' (data_opex d) capex 25 (8 / 100)))))))))"

section \<open>Specification functions used in the proofs\<close>

text \<open>
  \<open>residual\<close> is the closed form of what \<open>npv_loop\<close> computes over
  \<open>range(1, n + 1)\<close> from the accumulator \<open>- capex\<close>. \<open>returns_in\<close> says that a
  run of the bisection returned with \<open>irr_test\<close> bound to a value of an interval.
  \<open>irr_search\<close> names the value of \<open>irr_test\<close> after the loop of
  \<open>calculate_financial_metrics\<close>. For a revenue mapping, \<open>total_entry\<close> is what it has
  under \<open>total\<close> and \<open>named_sum\<close> is the sum of its six named revenue categories.
\<close>

definition residual :: "real \<Rightarrow> real \<Rightarrow> int \<Rightarrow> real \<Rightarrow> real" where
  "residual cash_flow capex n rate =
     - capex + (\<Sum>year = 1..n. cash_flow / (1 + rate) ^ nat year)"

definition returns_in :: "py_error + irr_state \<Rightarrow> real \<Rightarrow> real \<Rightarrow> bool" where
  "returns_in res a b =
     (case res of Inr (lo, hi, Some v) \<Rightarrow> a \<le> v \<and> v \<le> b | _ \<Rightarrow> False)"

definition irr_search :: "real \<Rightarrow> real \<Rightarrow> int \<Rightarrow> real" where
  "irr_search cash_flow capex n =
     (case irr_loop 100 cash_flow capex n (0, 1 / 2, None) of
        Inr (lo, hi, Some v) \<Rightarrow> v
      | _ \<Rightarrow> 0)"

definition revenue_categories :: "string list" where
  "revenue_categories =
     [''base_ppa'', ''platform_fees'', ''grid_services'', ''ev_charging'', ''rec_sales'',
      ''digital_twin_licensing'']"

definition named_sum :: "py_dict \<Rightarrow> real" where
  "named_sum d =
     (\<Sum>k\<leftarrow>revenue_categories. case map_of d k of Some (Num x) \<Rightarrow> x | _ \<Rightarrow> 0)"

definition total_entry :: "py_dict \<Rightarrow> py_value option" where
  "total_entry d = map_of d ''total''"

section \<open>The discounting loop\<close>

lemma npv_loop_ok:
  "1 + rate \<noteq> 0 \<Longrightarrow>
   npv_loop cash_flow rate years acc =
     Inr (acc + (\<Sum>year\<leftarrow>years. cash_flow / (1 + rate) ^ nat year))"
  by (induction years arbitrary: acc) (simp_all add: py_div_def add.assoc)

lemma npv_loop_raises:
  "1 + rate = 0 \<Longrightarrow> years \<noteq> [] \<Longrightarrow> \<forall>year\<in>set years. 1 \<le> year \<Longrightarrow>
   npv_loop cash_flow rate years acc = Inl ZeroDivisionError"
  by (cases years) (simp_all add: py_div_def)

lemma sum_list_upto:
  "(\<Sum>year\<leftarrow>[1..n]. f year) = (\<Sum>year = 1..n. f year)"
  by (simp add: sum_list_distinct_conv_sum_set)

lemma npv_range_returns:
  assumes "rate \<noteq> - 1 \<or> n < 1"
  shows "npv_loop cash_flow rate [1..n] (- capex) = Inr (residual cash_flow capex n rate)"
proof (cases "n < 1")
  case True
  then show ?thesis by (simp add: residual_def)
next
  case False
  with assms have "1 + rate \<noteq> 0" by (simp add: add_eq_0_iff)
  then show ?thesis by (simp add: npv_loop_ok sum_list_upto residual_def)
qed

lemma npv_range_raises:
  "1 \<le> n \<Longrightarrow> npv_loop cash_flow (- 1) [1..n] acc = Inl ZeroDivisionError"
  by (rule npv_loop_raises) (auto simp: upto_Nil)

section \<open>The bisection loop\<close>

lemma irr_loop_step:
  assumes "0 \<le> irr_low" "irr_low \<le> irr_high"
  shows "irr_loop (Suc k) cash_flow capex n (irr_low, irr_high, previous) =
     (let irr_test = (irr_low + irr_high) / 2;
          npv_test = residual cash_flow capex n irr_test
      in if \<bar>npv_test\<bar> < tolerance then Inr (irr_low, irr_high, Some irr_test)
         else if npv_test > 0 then
           irr_loop k cash_flow capex n (irr_test, irr_high, Some irr_test)
         else irr_loop k cash_flow capex n (irr_low, irr_test, Some irr_test))"
proof -
  from assms have "(irr_low + irr_high) / 2 \<noteq> - 1" by simp
  then show ?thesis by (simp add: npv_range_returns Let_def)
qed

lemma returns_in_Inr [simp]:
  "returns_in (Inr (lo, hi, t)) a b = (case t of Some v \<Rightarrow> a \<le> v \<and> v \<le> b | None \<Rightarrow> False)"
  by (simp add: returns_in_def)

lemma returns_in_widen:
  "returns_in res a b \<Longrightarrow> a' \<le> a \<Longrightarrow> b \<le> b' \<Longrightarrow> returns_in res a' b'"
  by (auto simp: returns_in_def split: sum.splits option.splits)

lemma returns_inE:
  assumes "returns_in res a b"
  obtains lo hi v where "res = Inr (lo, hi, Some v)" "a \<le> v" "v \<le> b"
  using assms by (auto simp: returns_in_def split: sum.splits option.splits)

lemma irr_loop_bounds:
  assumes "0 \<le> irr_low" "irr_low \<le> irr_high" "irr_low \<le> p" "p \<le> irr_high"
  shows "returns_in (irr_loop k cash_flow capex n (irr_low, irr_high, Some p)) irr_low irr_high"
  using assms
proof (induction k arbitrary: irr_low irr_high p)
  case 0
  then show ?case by simp
next
  case (Suc k)
  let ?t = "(irr_low + irr_high) / 2"
  from Suc.prems have t: "0 \<le> ?t" "irr_low \<le> ?t" "?t \<le> irr_high" by simp_all
  have up: "returns_in (irr_loop k cash_flow capex n (?t, irr_high, Some ?t)) irr_low irr_high"
    using Suc.IH [of ?t irr_high ?t] t by (auto elim: returns_in_widen)
  have down: "returns_in (irr_loop k cash_flow capex n (irr_low, ?t, Some ?t)) irr_low irr_high"
    using Suc.IH [of irr_low ?t ?t] t Suc.prems by (auto elim: returns_in_widen)
  from up down t Suc.prems show ?case
    by (simp add: irr_loop_step Let_def del: irr_loop.simps)
qed

lemma irr_loop_first:
  assumes "0 \<le> irr_low" "irr_low \<le> irr_high"
  shows "returns_in (irr_loop (Suc k) cash_flow capex n (irr_low, irr_high, previous))
           irr_low irr_high"
proof -
  let ?t = "(irr_low + irr_high) / 2"
  from assms have t: "0 \<le> ?t" "irr_low \<le> ?t" "?t \<le> irr_high" by simp_all
  have up: "returns_in (irr_loop k cash_flow capex n (?t, irr_high, Some ?t)) irr_low irr_high"
    using irr_loop_bounds [of ?t irr_high ?t k cash_flow capex n] t
    by (auto elim: returns_in_widen)
  have down: "returns_in (irr_loop k cash_flow capex n (irr_low, ?t, Some ?t)) irr_low irr_high"
    using irr_loop_bounds [of irr_low ?t ?t k cash_flow capex n] t assms
    by (auto elim: returns_in_widen)
  from up down t assms show ?thesis
    by (simp add: irr_loop_step Let_def del: irr_loop.simps)
qed


lemma irr_loop_100:
  "\<exists>lo hi. irr_loop 100 cash_flow capex n (0, 1 / 2, None)
            = Inr (lo, hi, Some (irr_search cash_flow capex n))
     \<and> 0 \<le> irr_search cash_flow capex n \<and> irr_search cash_flow capex n \<le> 1 / 2"
proof -
  have "(100::nat) = Suc 99" by simp
  then have "returns_in (irr_loop 100 cash_flow capex n (0, 1 / 2, None)) 0 (1 / 2)"
    using irr_loop_first [of 0 "1 / 2" 99 cash_flow capex n None] by simp
  then show ?thesis
    by (auto simp: irr_search_def elim!: returns_inE)
qed

lemma irr_search_bounds:
  "0 \<le> irr_search cash_flow capex n" "irr_search cash_flow capex n \<le> 1 / 2"
  using irr_loop_100 [of cash_flow capex n] by auto


section \<open>When calculate\_financial\_metrics returns\<close>

lemma calculate_financial_metrics_returns:
  assumes "discount_rate \<noteq> - 1 \<or> project_lifetime < 1"
  shows "calculate_financial_metrics annual_revenue opex capex project_lifetime discount_rate =
     Inr \<lparr> annual_cash_flow = annual_revenue - opex,
           payback_years = (if annual_revenue - opex > 0
                            then Fin (capex / (annual_revenue - opex)) else PosInf),
           npv = residual (annual_revenue - opex) capex project_lifetime discount_rate,
           irr = (if annual_revenue - opex > 0
                  then irr_search (annual_revenue - opex) capex project_lifetime else 0),
           roi = (if capex > 0
                  then (annual_revenue * real_of_int project_lifetime
                        - opex * real_of_int project_lifetime - capex) / capex * 100
                  else 0),
           lcoe_note = ''LCOE requires annual generation data'' \<rparr>"
proof -
  from irr_loop_100 [of "annual_revenue - opex" capex project_lifetime] obtain lo hi where
    "irr_loop 100 (annual_revenue - opex) capex project_lifetime (0, 1 / 2, None)
       = Inr (lo, hi, Some (irr_search (annual_revenue - opex) capex project_lifetime))"
    by blast
  with assms show ?thesis
    by (simp add: calculate_financial_metrics_def Let_def py_div_def npv_range_returns)
qed

lemma calculate_financial_metrics_raises:
  assumes "1 \<le> project_lifetime"
  shows "calculate_financial_metrics annual_revenue opex capex project_lifetime (- 1)
           = Inl ZeroDivisionError"
  using assms
  by (simp add: calculate_financial_metrics_def Let_def py_div_def npv_range_raises)




section \<open>Bracketing the result of the bisection\<close>

lemma residual_antimono:
  assumes "0 \<le> cash_flow" "- 1 < r1" "r1 \<le> r2"
  shows "residual cash_flow capex n r2 \<le> residual cash_flow capex n r1"
proof -
  have "cash_flow / (1 + r2) ^ nat year \<le> cash_flow / (1 + r1) ^ nat year" for year :: int
  proof (rule divide_left_mono)
    from assms show "(1 + r1) ^ nat year \<le> (1 + r2) ^ nat year"
      by (intro power_mono) simp_all
    from assms show "0 \<le> cash_flow" by simp
    from assms have "0 < 1 + r1" "0 < 1 + r2" by simp_all
    then show "0 < (1 + r2) ^ nat year * (1 + r1) ^ nat year" by simp
  qed
  then have "(\<Sum>year = 1..n. cash_flow / (1 + r2) ^ nat year)
               \<le> (\<Sum>year = 1..n. cash_flow / (1 + r1) ^ nat year)"
    by (intro sum_mono)
  then show ?thesis by (simp add: residual_def)
qed

lemma residual_as_list:
  "residual cash_flow capex n rate =
     - capex + (\<Sum>year\<leftarrow>[1..n]. cash_flow / (1 + rate) ^ nat year)"
  by (simp add: residual_def sum_list_upto)

lemma residual_scenario_low: "tolerance \<le> residual 200000 4710145 25 (1 / 216)"
  unfolding residual_as_list tolerance_def
  by (simp add: upto_rec1 power_divide)

lemma residual_scenario_high: "residual 200000 4710145 25 (1 / 215) \<le> - tolerance"
  unfolding residual_as_list tolerance_def
  by (simp add: upto_rec1 power_divide)

lemma irr_loop_bracket:
  assumes cf: "0 \<le> cash_flow"
    and ra: "tolerance \<le> residual cash_flow capex n a"
    and rb: "residual cash_flow capex n b \<le> - tolerance"
    and inv: "0 \<le> irr_low" "irr_low \<le> irr_high" "irr_low < b" "a < irr_high"
    and prev: "previous = None \<longrightarrow> 0 < k"
      "\<forall>p. previous = Some p \<longrightarrow> p = irr_low \<or> p = irr_high"
    and run: "irr_loop k cash_flow capex n (irr_low, irr_high, previous) = Inr (lo, hi, Some v)"
  shows "a - (irr_high - irr_low) / 2 ^ k < v \<and> v < b + (irr_high - irr_low) / 2 ^ k"
  using inv prev run
proof (induction k arbitrary: irr_low irr_high previous)
  case 0
  then show ?case by auto
next
  case (Suc k)
  let ?t = "(irr_low + irr_high) / 2"
  let ?r = "residual cash_flow capex n ?t"
  have tol: "0 < tolerance" by (simp add: tolerance_def)
  from Suc.prems have t: "0 \<le> ?t" "irr_low \<le> ?t" "?t \<le> irr_high" by simp_all
  have above_a: "a < ?t" if "?r < tolerance"
  proof (rule ccontr)
    assume "\<not> a < ?t"
    then have "?t \<le> a" by simp
    with cf t(1) have "residual cash_flow capex n a \<le> ?r"
      by (intro residual_antimono) simp_all
    with ra that show False by simp
  qed
  have below_b: "?t < b" if "- tolerance < ?r"
  proof (rule ccontr)
    assume "\<not> ?t < b"
    then have "b \<le> ?t" by simp
    moreover from Suc.prems have "- 1 < b" by simp
    ultimately have "?r \<le> residual cash_flow capex n b"
      using cf by (intro residual_antimono) simp_all
    with rb that show False by simp
  qed
  have half: "(irr_high - ?t) / 2 ^ k = (irr_high - irr_low) / 2 ^ Suc k"
    "(?t - irr_low) / 2 ^ k = (irr_high - irr_low) / 2 ^ Suc k"
    by (simp_all add: field_simps)
  have width: "0 \<le> (irr_high - irr_low) / 2 ^ Suc k"
    using Suc.prems(2) by simp
  from Suc.prems have run:
    "irr_loop (Suc k) cash_flow capex n (irr_low, irr_high, previous) = Inr (lo, hi, Some v)"
    by simp
  consider (stop) "\<bar>?r\<bar> < tolerance"
    | (up) "\<not> \<bar>?r\<bar> < tolerance" "?r > 0"
    | (down) "\<not> \<bar>?r\<bar> < tolerance" "\<not> ?r > 0" by blast
  then show ?case
  proof cases
    case stop
    with run Suc.prems(1,2) have "v = ?t"
      by (simp add: irr_loop_step Let_def del: irr_loop.simps)
    moreover from stop have small: "?r < tolerance" "- tolerance < ?r" by linarith+
    have "a < ?t" by (rule above_a [OF small(1)])
    moreover have "?t < b" by (rule below_b [OF small(2)])
    ultimately show ?thesis using width by linarith
  next
    case up
    with run Suc.prems(1,2)
    have next_run: "irr_loop k cash_flow capex n (?t, irr_high, Some ?t) = Inr (lo, hi, Some v)"
      by (simp add: irr_loop_step Let_def del: irr_loop.simps)
    from up tol have "?t < b" by (intro below_b) linarith
    with Suc.IH [of ?t irr_high "Some ?t"] t Suc.prems(4) next_run
    have "a - (irr_high - ?t) / 2 ^ k < v \<and> v < b + (irr_high - ?t) / 2 ^ k" by simp
    then show ?thesis unfolding half .
  next
    case down
    with run Suc.prems(1,2)
    have next_run: "irr_loop k cash_flow capex n (irr_low, ?t, Some ?t) = Inr (lo, hi, Some v)"
      by (simp add: irr_loop_step Let_def del: irr_loop.simps)
    from down tol have "a < ?t" by (intro above_a) linarith
    with Suc.IH [of irr_low ?t "Some ?t"] t Suc.prems(1,3) next_run
    have "a - (?t - irr_low) / 2 ^ k < v \<and> v < b + (?t - irr_low) / 2 ^ k" by simp
    then show ?thesis unfolding half .
  qed
qed

lemma irr_search_bracket:
  assumes "0 \<le> cash_flow" "0 < b" "a < 1 / 2"
    and "tolerance \<le> residual cash_flow capex n a"
    and "residual cash_flow capex n b \<le> - tolerance"
  shows "a - 1 / 2 ^ 101 < irr_search cash_flow capex n"
    and "irr_search cash_flow capex n < b + 1 / 2 ^ 101"
proof -
  from irr_loop_100 [of cash_flow capex n] obtain lo hi where
    run: "irr_loop 100 cash_flow capex n (0, 1 / 2, None)
            = Inr (lo, hi, Some (irr_search cash_flow capex n))"
    by blast
  have "a - (1 / 2 - 0) / 2 ^ 100 < irr_search cash_flow capex n
      \<and> irr_search cash_flow capex n < b + (1 / 2 - 0) / 2 ^ 100"
    by (rule irr_loop_bracket [OF assms(1,4,5) _ _ _ _ _ _ run]) (use assms in simp_all)
  then show "a - 1 / 2 ^ 101 < irr_search cash_flow capex n"
    and "irr_search cash_flow capex n < b + 1 / 2 ^ 101"
    by simp_all
qed

lemma roi_zero_capex:
  assumes "discount_rate \<noteq> - 1 \<or> project_lifetime < 1"
  shows "\<exists>m. calculate_financial_metrics annual_revenue opex 0 project_lifetime discount_rate
               = Inr m \<and> roi m = 0"
  using assms by (simp add: calculate_financial_metrics_returns)

section \<open>The configuration in the store\<close>

lemmas comp_defs = py_bind_def py_pure_def py_return_def subscript_def contains_def copy_def
  store_def OPTIMIZED_CONFIG_def

lemma frame_revenue_streams:
  "take (length h) (snd (get_optimized_revenue_streams h)) = h"
  by (auto simp: get_optimized_revenue_streams_def comp_defs
      split: sum.splits prod.splits py_value.splits if_splits)

lemma frame_site_config:
  "take (length h) (snd (get_optimized_site_config site_name h)) = h"
  by (auto simp: get_optimized_site_config_def comp_defs
      split: sum.splits prod.splits py_value.splits if_splits)

lemma frame_current_metrics:
  "take (length h) (snd (calculate_current_metrics h)) = h"
  by (auto simp: calculate_current_metrics_def get_optimized_revenue_streams_def
        get_optimized_capex_def comp_defs
      split: sum.splits prod.splits py_value.splits if_splits)

lemma frame_scenario:
  "take (length h) (snd (calculate_scenario scenario_name revenue_adjustment
      capex_adjustment h)) = h"
  by (auto simp: calculate_scenario_def calculate_current_metrics_def
        get_optimized_revenue_streams_def get_optimized_capex_def comp_defs
      split: sum.splits prod.splits py_value.splits if_splits)

lemma revenue_streams_is_copy:
  assumes "get_optimized_revenue_streams h = (Inr v, h')"
  shows "v = Ref (length h) \<and> (\<exists>a. a < length h \<and> h' = h @ [h ! a])"
  using assms
  by (auto simp: get_optimized_revenue_streams_def comp_defs
      split: sum.splits prod.splits py_value.splits if_splits)

lemma site_config_is_copy:
  assumes "get_optimized_site_config site_name h = (Inr v, h')"
  shows "v = Ref (length h) \<and> (\<exists>a. a < length h \<and> h' = h @ [h ! a])"
  using assms
  by (auto simp: get_optimized_site_config_def comp_defs
      split: sum.splits prod.splits py_value.splits if_splits)

lemma revenue_streams_on_module:
  "get_optimized_revenue_streams module_heap = (Inr (Ref 8), module_heap @ [module_heap ! 2])"
  by (simp add: get_optimized_revenue_streams_def comp_defs module_heap_def dict_get_def)

lemma site_config_on_module:
  "get_optimized_site_config ''Site_A'' module_heap
     = (Inr (Ref 8), module_heap @ [module_heap ! 5])"
  by (simp add: get_optimized_site_config_def comp_defs module_heap_def dict_get_def)

lemma unknown_site_on_module:
  "get_optimized_site_config ''Site_D'' module_heap = (Inl ValueError, module_heap)"
  by (simp add: get_optimized_site_config_def comp_defs module_heap_def dict_get_def)

lemma current_metrics_on_module:
  "\<exists>m. calculate_current_metrics module_heap =
     (Inr \<lparr> data_revenue = Ref 8, data_capex = Num 4710145, data_opex = Num 43000,
            data_metrics = m \<rparr>, module_heap @ [module_heap ! 2])"
  by (simp add: calculate_current_metrics_def get_optimized_revenue_streams_def
        get_optimized_capex_def comp_defs module_heap_def dict_get_def
        call_financial_metrics_def as_number_def calculate_financial_metrics_returns)

lemma scenario_on_module:
  "\<exists>m. calculate_scenario scenario_name revenue_adjustment capex_adjustment module_heap =
     (Inr m, module_heap @ [module_heap ! 2,
        [(''base_ppa'', Num 243000), (''platform_fees'', Num 19000),
         (''grid_services'', Num 60000), (''ev_charging'', Num 50000),
         (''rec_sales'', Num 30000), (''digital_twin_licensing'', Num 75000),
         (''total'', Num (477000 + revenue_adjustment))]])"
  by (simp add: calculate_scenario_def calculate_current_metrics_def
        get_optimized_revenue_streams_def py_add_def dict_set_def
        get_optimized_capex_def comp_defs module_heap_def dict_get_def
        call_financial_metrics_def as_number_def calculate_financial_metrics_returns)

text \<open>
  The store does tell a copy from the original: the same write through the
  configuration's own reference would change \<open>OPTIMIZED_CONFIG\<close>.
\<close>

lemma alias_write_changes_config:
  "snd (store (Ref 2) ''total'' (Num 457000) module_heap) \<noteq> module_heap"
  by (simp add: store_def module_heap_def dict_set_def)

section \<open>The claim about a solar capacity of zero\<close>

text \<open>
  C6. The claim asks for a cost per kW of 0 when \<open>solar_capacity_kw\<close> is 0. The code
  divides \<open>total_capex\<close> by the capacity with no guard, so the call raises
  \<open>ZeroDivisionError\<close> for every battery size and returns no breakdown. (The guard
  \<open>if total_solar_kw > 0 else 0\<close> is present where \<open>analyze_all_sites_capex\<close> computes
  the same figure for the aggregate, and \<open>roi\<close> has its guard, see \<open>roi_zero_capex\<close>.)
\<close>

theorem site_capex_zero_solar_raises:
  "calculate_site_capex 0 battery_power_kw battery_energy_kwh = Inl ZeroDivisionError"
  by (simp add: calculate_site_capex_def Let_def py_div_def)

section \<open>Claims about calculate\_financial\_metrics\<close>

text \<open>
  In the program the power \<open>(1 + rate) ** year\<close> can also raise \<open>OverflowError\<close>, and
  it can underflow to zero so that the division raises; both are effects of binary
  floating point and outside these definitions. A statement of this section that has
  the return of the call among its hypotheses says nothing about a call that raises.
\<close>



text \<open>
  C2. Whatever the inputs, the \<open>irr\<close> that \<open>calculate_financial_metrics\<close> returns lies in
  the closed interval from 0 to 0.5, the fixed bounds of the bisection.
\<close>

theorem irr_within_search_bounds:
  assumes "calculate_financial_metrics annual_revenue opex capex project_lifetime
             discount_rate = Inr m"
  shows "0 \<le> irr m \<and> irr m \<le> 1 / 2"
proof (cases "discount_rate \<noteq> - 1 \<or> project_lifetime < 1")
  case True
  from calculate_financial_metrics_returns [OF True, of annual_revenue opex capex] assms
  show ?thesis
    using irr_search_bounds [of "annual_revenue - opex" capex project_lifetime] by auto
next
  case False
  with assms calculate_financial_metrics_raises [of project_lifetime annual_revenue opex capex]
  show ?thesis by simp
qed

text \<open>
  The witness is a project that pays back twice its cost after one year: its true rate
  of return is 100 percent, the search climbs for all 100 passes and stops just below 0.5.
\<close>

theorem irr_within_search_bounds_witness:
  "calculate_financial_metrics 2 0 1 1 0 =
     Inr \<lparr> annual_cash_flow = 2, payback_years = Fin (1 / 2), npv = 1,
           irr = 1267650600228229401496703205375 / 2535301200456458802993406410752,
           roi = 100, lcoe_note = ''LCOE requires annual generation data'' \<rparr>
   \<and> (0::real) \<le> 1267650600228229401496703205375 / 2535301200456458802993406410752
   \<and> (1267650600228229401496703205375 / 2535301200456458802993406410752 :: real) \<le> 1 / 2"
proof -
  have run: "calculate_financial_metrics 2 0 1 1 0 =
     Inr \<lparr> annual_cash_flow = 2, payback_years = Fin (1 / 2), npv = 1,
           irr = 1267650600228229401496703205375 / 2535301200456458802993406410752,
           roi = 100, lcoe_note = ''LCOE requires annual generation data'' \<rparr>"
    by (simp add: calculate_financial_metrics_def Let_def py_div_def tolerance_def
          eval_nat_numeral upto_rec1)
  from irr_within_search_bounds [OF run] run show ?thesis by simp
qed








text \<open>
  C9. For revenue 243000, operating cost 43000, net capital cost 4710145, 25 years and a
  discount rate of 8 percent, \<open>calculate_financial_metrics\<close> returns an annual cash flow
  of 200000, a payback of \<open>4710145 / 200000\<close> years, which is 23.6 to one decimal, and
  an \<open>irr\<close> between 0.46 and 0.47 percent, below the 10 percent target. The residual NPV
  is positive at the rate \<open>1/216\<close> and negative at \<open>1/215\<close>, so the exact rate of return
  lies between the two, and the returned \<open>irr\<close> is within \<open>2^-101\<close> of that interval:
  it agrees with any other root finder to much less than 0.1 percentage point.
\<close>

theorem optimized_base_scenario:
  "\<exists>m. calculate_financial_metrics 243000 43000 4710145 25 (8 / 100) = Inr m
     \<and> annual_cash_flow m = 200000
     \<and> payback_years m = Fin (4710145 / 200000)
     \<and> (2355 / 100 :: real) \<le> 4710145 / 200000 \<and> (4710145 / 200000 :: real) < 2365 / 100
     \<and> 46 / 10000 < irr m \<and> irr m < 47 / 10000 \<and> irr m < 10 / 100
     \<and> 1 / 216 - 1 / 2 ^ 101 < irr m \<and> irr m < 1 / 215 + 1 / 2 ^ 101
     \<and> 0 < residual 200000 4710145 25 (1 / 216)
     \<and> residual 200000 4710145 25 (1 / 215) < 0"
proof -
  have tol: "0 < tolerance" by (simp add: tolerance_def)
  have lo: "1 / 216 - 1 / 2 ^ 101 < irr_search 200000 4710145 25"
    by (rule irr_search_bracket [OF _ _ _ residual_scenario_low residual_scenario_high])
      simp_all
  have hi: "irr_search 200000 4710145 25 < 1 / 215 + 1 / 2 ^ 101"
    by (rule irr_search_bracket [OF _ _ _ residual_scenario_low residual_scenario_high])
      simp_all
  have "(46 / 10000 :: real) < 1 / 216 - 1 / 2 ^ 101" by simp
  with lo have lo': "46 / 10000 < irr_search 200000 4710145 25" by linarith
  have "(1 / 215 + 1 / 2 ^ 101 :: real) < 47 / 10000" by simp
  with hi have hi': "irr_search 200000 4710145 25 < 47 / 10000" by linarith
  from hi' have hi'': "irr_search 200000 4710145 25 < 10 / 100" by linarith
  from tol residual_scenario_low have pos: "0 < residual 200000 4710145 25 (1 / 216)"
    by linarith
  from tol residual_scenario_high have neg: "residual 200000 4710145 25 (1 / 215) < 0"
    by linarith
  have ret: "(8 / 100 :: real) \<noteq> - 1 \<or> (25::int) < 1" by simp
  show ?thesis
    using lo hi lo' hi' hi'' pos neg
      calculate_financial_metrics_returns [OF ret, of 243000 43000 4710145]
    by simp
qed

section \<open>Claims about the configuration and the revenue mapping\<close>

text \<open>
  C7, as amended. On the module as loaded, the mapping that
  \<open>get_optimized_revenue_streams\<close> returns has a \<open>total\<close> of 477000, the sum of its six
  named revenue categories. The adjusted mapping inside \<open>calculate_scenario\<close> (the
  second object the call creates, at address 9) keeps the six categories and has a
  \<open>total\<close> of that sum plus \<open>revenue_adjustment\<close>.
\<close>

theorem revenue_total_and_components:
  "(\<exists>h'. get_optimized_revenue_streams module_heap = (Inr (Ref 8), h')
        \<and> total_entry (h' ! 8) = Some (Num (named_sum (h' ! 8)))
        \<and> named_sum (h' ! 8) = 477000)
   \<and> (\<exists>m h'. calculate_scenario scenario_name revenue_adjustment capex_adjustment module_heap
                = (Inr m, h')
        \<and> total_entry (h' ! 9) = Some (Num (named_sum (h' ! 9) + revenue_adjustment))
        \<and> named_sum (h' ! 9) = 477000)"
proof -
  have "total_entry ((module_heap @ [module_heap ! 2]) ! 8)
          = Some (Num (named_sum ((module_heap @ [module_heap ! 2]) ! 8)))
      \<and> named_sum ((module_heap @ [module_heap ! 2]) ! 8) = 477000"
    by (simp add: module_heap_def total_entry_def named_sum_def revenue_categories_def)
  with revenue_streams_on_module have first: "\<exists>h'.
      get_optimized_revenue_streams module_heap = (Inr (Ref 8), h')
      \<and> total_entry (h' ! 8) = Some (Num (named_sum (h' ! 8)))
      \<and> named_sum (h' ! 8) = 477000"
    by blast
  from scenario_on_module [of scenario_name revenue_adjustment capex_adjustment]
  obtain m where run:
    "calculate_scenario scenario_name revenue_adjustment capex_adjustment module_heap =
     (Inr m, module_heap @ [module_heap ! 2,
        [(''base_ppa'', Num 243000), (''platform_fees'', Num 19000),
         (''grid_services'', Num 60000), (''ev_charging'', Num 50000),
         (''rec_sales'', Num 30000), (''digital_twin_licensing'', Num 75000),
         (''total'', Num (477000 + revenue_adjustment))]])"
    (is "_ = (_, ?h')")
    by blast
  have "total_entry (?h' ! 9) = Some (Num (named_sum (?h' ! 9) + revenue_adjustment))
      \<and> named_sum (?h' ! 9) = 477000"
    by (simp add: module_heap_def total_entry_def named_sum_def revenue_categories_def
          nth_append)
  with run have second: "\<exists>m h'.
      calculate_scenario scenario_name revenue_adjustment capex_adjustment module_heap
        = (Inr m, h')
      \<and> total_entry (h' ! 9) = Some (Num (named_sum (h' ! 9) + revenue_adjustment))
      \<and> named_sum (h' ! 9) = 477000"
    by blast
  from first second show ?thesis by blast
qed

text \<open>
  C7 as stated fails for the adjusted mapping: the call
  \<open>calculate_scenario("Conservative", revenue_adjustment=-20_000)\<close> of the script's
  own main block leaves a mapping whose \<open>total\<close> is 457000 while its six categories
  still add up to 477000.
\<close>

theorem revenue_total_counterexample:
  "total_entry (snd (calculate_scenario ''Conservative'' (- 20000) 0 module_heap) ! 9)
     = Some (Num 457000)
   \<and> named_sum (snd (calculate_scenario ''Conservative'' (- 20000) 0 module_heap) ! 9)
     = 477000"
proof -
  from scenario_on_module [of "''Conservative''" "- 20000" 0]
  obtain m where run:
    "calculate_scenario ''Conservative'' (- 20000) 0 module_heap =
     (Inr m, module_heap @ [module_heap ! 2,
        [(''base_ppa'', Num 243000), (''platform_fees'', Num 19000),
         (''grid_services'', Num 60000), (''ev_charging'', Num 50000),
         (''rec_sales'', Num 30000), (''digital_twin_licensing'', Num 75000),
         (''total'', Num (477000 + - 20000))]])"
    by blast
  show ?thesis
    unfolding run
    by (simp add: module_heap_def total_entry_def named_sum_def revenue_categories_def
          nth_append)
qed

text \<open>
  C10. Every dictionary that exists when \<open>get_optimized_revenue_streams\<close>,
  \<open>get_optimized_site_config\<close>, \<open>calculate_current_metrics\<close> or \<open>calculate_scenario\<close>
  is called, \<open>OPTIMIZED_CONFIG\<close> and the dictionaries nested in it among them, is the
  same after the call, whether the call returns or raises: the store only grows. What
  the two getters return is a reference to a new object that has the items of an
  object of the old store, so a write through it cannot reach the configuration.
\<close>

theorem optimized_config_unchanged:
  "take (length h) (snd (get_optimized_revenue_streams h)) = h
   \<and> take (length h) (snd (get_optimized_site_config site_name h)) = h
   \<and> take (length h) (snd (calculate_current_metrics h)) = h
   \<and> take (length h) (snd (calculate_scenario scenario_name revenue_adjustment
                              capex_adjustment h)) = h
   \<and> (\<forall>v h'. get_optimized_revenue_streams h = (Inr v, h') \<longrightarrow>
         v = Ref (length h) \<and> (\<exists>a. a < length h \<and> h' = h @ [h ! a]))
   \<and> (\<forall>v h'. get_optimized_site_config site_name h = (Inr v, h') \<longrightarrow>
         v = Ref (length h) \<and> (\<exists>a. a < length h \<and> h' = h @ [h ! a]))"
proof (intro conjI allI impI)
  show "take (length h) (snd (get_optimized_revenue_streams h)) = h"
    by (rule frame_revenue_streams)
  show "take (length h) (snd (get_optimized_site_config site_name h)) = h"
    by (rule frame_site_config)
  show "take (length h) (snd (calculate_current_metrics h)) = h"
    by (rule frame_current_metrics)
  show "take (length h) (snd (calculate_scenario scenario_name revenue_adjustment
                                capex_adjustment h)) = h"
    by (rule frame_scenario)
next
  fix v h'
  assume "get_optimized_revenue_streams h = (Inr v, h')"
  from revenue_streams_is_copy [OF this]
  show "v = Ref (length h)" and "\<exists>a. a < length h \<and> h' = h @ [h ! a]" by simp_all
next
  fix v h'
  assume "get_optimized_site_config site_name h = (Inr v, h')"
  from site_config_is_copy [OF this]
  show "v = Ref (length h)" and "\<exists>a. a < length h \<and> h' = h @ [h ! a]" by simp_all
qed

theorem optimized_config_unchanged_witness:
  "get_optimized_revenue_streams module_heap = (Inr (Ref 8), module_heap @ [module_heap ! 2])
   \<and> get_optimized_site_config ''Site_A'' module_heap
       = (Inr (Ref 8), module_heap @ [module_heap ! 5])
   \<and> Ref 8 = Ref (length module_heap)
   \<and> take (length module_heap) (snd (get_optimized_revenue_streams module_heap)) = module_heap
   \<and> take (length module_heap) (snd (get_optimized_site_config ''Site_A'' module_heap))
       = module_heap
   \<and> take (length module_heap) (snd (calculate_current_metrics module_heap)) = module_heap
   \<and> take (length module_heap) (snd (calculate_scenario ''Conservative'' (- 20000) 0
                                        module_heap)) = module_heap"
proof -
  have len: "length module_heap = 8" by (simp add: module_heap_def)
  from optimized_config_unchanged [of module_heap "''Site_A''" "''Conservative''" "- 20000" 0]
    revenue_streams_on_module site_config_on_module len
  show ?thesis by simp
qed

end
